theory Spec2Isabelle
  imports Complex_Main "HOL-Library.Sublist" "HOL-Library.Multiset"
begin

section \<open>Strings as the bot uses them\<close>

text \<open>
  Python strings are modelled as \<open>string\<close> (lists of bytes). The string operations of
  \<^verbatim>\<open>discord_pc_bot.py\<close> that the verified functions use are \<^verbatim>\<open>sub in s\<close>,
  \<^verbatim>\<open>s.startswith(p)\<close>, \<^verbatim>\<open>s.lower()\<close>, \<^verbatim>\<open>c.isdigit()\<close>, \<^verbatim>\<open>sep.join(xs)\<close> and
  \<^verbatim>\<open>int(s)\<close>. Case mapping and digits are the ASCII ones: every keyword the bot looks
  for is ASCII.
\<close>

fun startswith :: "string \<Rightarrow> string \<Rightarrow> bool" where
  "startswith s [] = True"
| "startswith [] (p # ps) = False"
| "startswith (c # cs) (p # ps) = (c = p \<and> startswith cs ps)"

text \<open>\<^verbatim>\<open>sub in s\<close>: \<open>sub\<close> occurs in \<open>s\<close> as a contiguous run.\<close>

fun str_in :: "string \<Rightarrow> string \<Rightarrow> bool" where
  "str_in sub [] = (sub = [])"
| "str_in sub (c # cs) = (startswith (c # cs) sub \<or> str_in sub cs)"

definition isdigit :: "char \<Rightarrow> bool" where
  "isdigit c = (48 \<le> (of_char c :: nat) \<and> (of_char c :: nat) \<le> 57)"

definition lower_char :: "char \<Rightarrow> char" where
  "lower_char c =
     (if 65 \<le> (of_char c :: nat) \<and> (of_char c :: nat) \<le> 90
      then char_of ((of_char c :: nat) + 32) else c)"

definition lower :: "string \<Rightarrow> string" where
  "lower s = map lower_char s"

text \<open>\<^verbatim>\<open>any(word in text for word in words)\<close>\<close>

definition any_in :: "string list \<Rightarrow> string \<Rightarrow> bool" where
  "any_in words txt = list_ex (\<lambda>word. str_in word txt) words"

text \<open>\<^verbatim>\<open>int(s)\<close> on a run of decimal digits.\<close>

definition digit_val :: "char \<Rightarrow> int" where
  "digit_val c = int (of_char c) - 48"

definition int_of_digits :: "string \<Rightarrow> int" where
  "int_of_digits s = foldl (\<lambda>a c. 10 * a + digit_val c) 0 s"

section \<open>The budget ceiling of \<^verbatim>\<open>PCBuildGenerator.build_prompt\<close>\<close>

text \<open>
  \<^verbatim>\<open>budget_match = re.search(r'(\d+[\,\d]*)', budget_text.replace(',', ''))\<close>:
  the commas are removed first, so the match is the longest run of digits that starts
  at the first digit of the text; there is no match when the text has no digit.
\<close>

definition budget_match :: "string \<Rightarrow> string option" where
  "budget_match budget_text =
     (let t = filter (\<lambda>c. c \<noteq> CHR '','') budget_text;
          rest = dropWhile (\<lambda>c. \<not> isdigit c) t
      in if rest = [] then None else Some (takeWhile isdigit rest))"

text \<open>
  The numeric branch. \<^verbatim>\<open>reduced = int(budget_val * 0.85)\<close> multiplies by a float and
  truncates; the model takes the product exactly, \<open>budget_val * 85 div 100\<close>. The two
  agree for every amount of money a double holds exactly with digits to spare (the
  fractional part of the exact product is a multiple of 0.05, far from the rounding
  error); for numbers of seventeen digits and more the float product is rounded, and the
  model does not follow it there.
\<close>

definition numeric_ceiling :: "int \<Rightarrow> int" where
  "numeric_ceiling budget_val =
     (let reduced = budget_val * 85 div 100;
          adjusted_budget = min reduced (budget_val - 200)
      in if budget_val - adjusted_budget < 200 then budget_val - 200 else adjusted_budget)"

definition gaming_words :: "string list" where
  "gaming_words = [''fortnite'', ''gaming'', ''game'']"

definition budget_words :: "string list" where
  "budget_words = [''budget'', ''cost'', ''price'', ''spend'', ''afford'']"

text \<open>\<^verbatim>\<open>budget_val = int(budget_match.group(1).replace(',', ''))\<close>, when there is a match.\<close>

definition parse_budget :: "string \<Rightarrow> int option" where
  "parse_budget budget_text =
     map_option (\<lambda>grp. int_of_digits (filter (\<lambda>c. c \<noteq> CHR '','') grp))
       (budget_match budget_text)"

text \<open>The value of the local variable \<^verbatim>\<open>adjusted_budget\<close> for a budget text.\<close>

definition adjusted_budget :: "string \<Rightarrow> int" where
  "adjusted_budget budget_text =
     (case parse_budget budget_text of
        Some budget_val \<Rightarrow> numeric_ceiling budget_val
      | None \<Rightarrow>
          (let budget_lower = lower budget_text
           in if any_in gaming_words budget_lower then 800
              else if any_in budget_words budget_lower then 1200
              else 1000))"

text \<open>\<^verbatim>\<open>sep.join(xs)\<close>\<close>

fun join :: "string \<Rightarrow> string list \<Rightarrow> string" where
  "join sep [] = []"
| "join sep [x] = x"
| "join sep (x # y # ys) = x @ sep @ join sep (y # ys)"

text \<open>
  \<^verbatim>\<open>str(n)\<close> for an integer, and \<^verbatim>\<open>int(s)\<close> for a key of the sessions file. Python's
  \<^verbatim>\<open>int\<close> also accepts blanks around the number and single underscores between digits;
  \<^verbatim>\<open>save_sessions\<close> never writes such a key, and the model answers \<open>None\<close> (the
  \<^verbatim>\<open>ValueError\<close>) for them.
\<close>

fun digits_of_nat :: "nat \<Rightarrow> string" where
  "digits_of_nat n =
     (if n < 10 then [char_of (48 + n)]
      else digits_of_nat (n div 10) @ [char_of (48 + n mod 10)])"

declare digits_of_nat.simps [simp del]

definition str_int :: "int \<Rightarrow> string" where
  "str_int i = (if i < 0 then CHR ''-'' # digits_of_nat (nat (- i)) else digits_of_nat (nat i))"

definition all_digits :: "string \<Rightarrow> bool" where
  "all_digits s = (s \<noteq> [] \<and> list_all isdigit s)"

definition py_int :: "string \<Rightarrow> int option" where
  "py_int s =
     (case s of
        [] \<Rightarrow> None
      | c # cs \<Rightarrow>
          if c = CHR ''-'' then (if all_digits cs then Some (- int_of_digits cs) else None)
          else if c = CHR ''+'' then (if all_digits cs then Some (int_of_digits cs) else None)
          else if all_digits s then Some (int_of_digits s) else None)"

section \<open>Dictionaries, JSON documents and the files of the bot\<close>

text \<open>
  A Python \<^verbatim>\<open>dict\<close> is an association list in insertion order whose keys are distinct:
  \<^verbatim>\<open>d[k] = v\<close> is \<open>dict_set\<close>, \<^verbatim>\<open>del d[k]\<close> is \<open>dict_del\<close>, \<^verbatim>\<open>d.get(k)\<close> is
  \<open>map_of d k\<close> and \<^verbatim>\<open>d.items()\<close> is the list itself.
\<close>

fun dict_set :: "'k \<Rightarrow> 'v \<Rightarrow> ('k \<times> 'v) list \<Rightarrow> ('k \<times> 'v) list" where
  "dict_set k v [] = [(k, v)]"
| "dict_set k v ((k', v') # kvs) =
     (if k = k' then (k, v) # kvs else (k', v') # dict_set k v kvs)"

definition dict_del :: "'k \<Rightarrow> ('k \<times> 'v) list \<Rightarrow> ('k \<times> 'v) list" where
  "dict_del k kvs = filter (\<lambda>kv. fst kv \<noteq> k) kvs"

datatype json =
    JNull
  | JBool bool
  | JInt int
  | JStr string
  | JList "json list"
  | JObj "(string \<times> json) list"

text \<open>
  The exceptions the modelled code can raise. \<open>CouldNotAcquire\<close> is the
  \<^verbatim>\<open>Exception("Could not acquire lock for ...")\<close> of \<^verbatim>\<open>FileLock.__enter__\<close>.
  \<open>OutsideModel\<close> is not a Python exception: it marks a document whose fields do not
  have the JSON types \<^verbatim>\<open>to_dict\<close> writes, which the typed session record below cannot
  hold.
\<close>

datatype error =
    CouldNotAcquire string
  | JSONDecodeError
  | KeyError string
  | ValueError string
  | TypeError
  | AttributeError
  | FileNotFoundError
  | OSError
  | OutsideModel string

text \<open>
  The contents of the sessions file. \<^verbatim>\<open>json.dump\<close> and \<^verbatim>\<open>json.load\<close> are the
  standard library's codec, so the model keeps the document and not its text:
  \<open>Document j\<close> is the complete text \<^verbatim>\<open>json.dump\<close> writes for \<open>j\<close>; \<open>Partial j k\<close> is
  only the first \<open>k\<close> characters of that text, left behind by a write that failed
  (a proper prefix: the text of an object ends with its closing brace, so no proper
  prefix of it parses); \<open>NotJson t\<close> is any other text \<open>t\<close> that is not a JSON document,
  the empty text \<open>NotJson []\<close> among them.
\<close>

datatype file_content = Document json | Partial json nat | NotJson string

definition json_load :: "file_content \<Rightarrow> error + json" where
  "json_load c = (case c of Document j \<Rightarrow> Inr j | Partial j k \<Rightarrow> Inl JSONDecodeError
                  | NotJson t \<Rightarrow> Inl JSONDecodeError)"

datatype log_line = Error_loading_sessions error | Error_saving_sessions error | Cleaned_up nat

text \<open>
  What the bot shares with its environment: the sessions file
  (\<^verbatim>\<open>USER_SESSIONS_FILE\<close>, absent when \<open>None\<close>), the lock marker files that exist, the lines
  the logger has written, and how the disk behaves: with \<open>write_fails_after = Some k\<close>
  a write to the sessions file raises \<^verbatim>\<open>OSError\<close> after \<open>k\<close> characters, with \<open>None\<close>
  writes complete.
\<close>

record world =
  mirror :: "file_content option"
  lock_files :: "string list"
  logged :: "log_line list"
  write_fails_after :: "nat option"

definition SESSIONS_LOCK_FILE :: string where
  "SESSIONS_LOCK_FILE = ''.sessions_lock''"

section \<open>\<^verbatim>\<open>FileLock\<close>\<close>

text \<open>
  \<^verbatim>\<open>acquire\<close> polls until the timeout: each round tries to create the marker file
  exclusively and sleeps 0.1 s when it exists. The first argument is the number of rounds
  that fit into the timeout (\<open>polls\<close> for the default of 5 s). No other process runs
  between the rounds of the model, so a marker that exists stays. Creating and removing
  the marker file succeed in the model; in the source \<^verbatim>\<open>acquire\<close> answers \<^verbatim>\<open>False\<close>
  when the creation fails for another reason, and \<^verbatim>\<open>release\<close> ignores a removal that
  fails.
\<close>

definition polls :: nat where
  "polls = 50"

fun acquire :: "nat \<Rightarrow> string \<Rightarrow> world \<Rightarrow> bool \<times> world" where
  "acquire 0 lock_file w = (False, w)"
| "acquire (Suc n) lock_file w =
     (if lock_file \<in> set (lock_files w) then acquire n lock_file w
      else (True, w\<lparr>lock_files := lock_file # lock_files w\<rparr>))"

definition release :: "string \<Rightarrow> world \<Rightarrow> world" where
  "release lock_file w =
     (if lock_file \<in> set (lock_files w)
      then w\<lparr>lock_files := removeAll lock_file (lock_files w)\<rparr> else w)"

definition FileLock_enter :: "string \<Rightarrow> world \<Rightarrow> (error + unit) \<times> world" where
  "FileLock_enter lock_file w =
     (case acquire polls lock_file w of
        (True, w') \<Rightarrow> (Inr (), w')
      | (False, w') \<Rightarrow> (Inl (CouldNotAcquire lock_file), w'))"

definition FileLock_exit :: "string \<Rightarrow> world \<Rightarrow> world" where
  "FileLock_exit lock_file w = release lock_file w"

text \<open>
  \<^verbatim>\<open>with FileLock(lock_file): body\<close>. The body returns its outcome, an exception it
  raises included, together with the world it leaves; \<^verbatim>\<open>__exit__\<close> runs on every way
  out of the body and returns \<^verbatim>\<open>None\<close>, so the body's outcome is passed on unchanged.
  When \<^verbatim>\<open>__enter__\<close> raises, the body does not run.
\<close>

definition with_FileLock ::
  "string \<Rightarrow> (world \<Rightarrow> 'a \<times> world) \<Rightarrow> world \<Rightarrow> (error + 'a) \<times> world" where
  "with_FileLock lock_file body w =
     (case FileLock_enter lock_file w of
        (Inl e, w1) \<Rightarrow> (Inl e, w1)
      | (Inr u, w1) \<Rightarrow> (case body w1 of (r, w2) \<Rightarrow> (Inr r, FileLock_exit lock_file w2)))"

section \<open>\<^verbatim>\<open>PCBuilderSession\<close>\<close>

text \<open>
  One entry of \<^verbatim>\<open>chat_history\<close> is the dictionary
  \<^verbatim>\<open>{'role': ..., 'text': ...}\<close>. The two time stamps are the strings
  \<^verbatim>\<open>datetime.now().isoformat()\<close> returns; \<^verbatim>\<open>from_dict\<close> sets them to \<^verbatim>\<open>None\<close> when
  the document has no such key.
\<close>

record chat_msg =
  msg_role :: string
  msg_text :: string

record session =
  user_id :: int
  chat_history :: "chat_msg list"
  answers :: "(string \<times> string) list"
  build_result :: string
  refinement_mode :: bool
  conversation_mode :: bool
  feedback_mode :: bool
  user_feedback :: string
  build_edits :: "string list"
  created_at :: "string option"
  last_activity :: "string option"

text \<open>\<^verbatim>\<open>PCBuilderSession.__init__\<close>; \<open>now_iso\<close> is \<^verbatim>\<open>datetime.now().isoformat()\<close>.\<close>

definition new_session :: "int \<Rightarrow> string \<Rightarrow> session" where
  "new_session uid now_iso =
     \<lparr>user_id = uid, chat_history = [], answers = [], build_result = [],
      refinement_mode = False, conversation_mode = False, feedback_mode = False,
      user_feedback = [], build_edits = [],
      created_at = Some now_iso, last_activity = Some now_iso\<rparr>"

definition update_activity :: "string \<Rightarrow> session \<Rightarrow> session" where
  "update_activity now_iso s = s\<lparr>last_activity := Some now_iso\<rparr>"

definition msg_to_json :: "chat_msg \<Rightarrow> json" where
  "msg_to_json m = JObj [(''role'', JStr (msg_role m)), (''text'', JStr (msg_text m))]"

definition opt_str_to_json :: "string option \<Rightarrow> json" where
  "opt_str_to_json x = (case x of None \<Rightarrow> JNull | Some t \<Rightarrow> JStr t)"

definition to_dict :: "session \<Rightarrow> json" where
  "to_dict s = JObj
     [(''user_id'', JInt (user_id s)),
      (''chat_history'', JList (map msg_to_json (chat_history s))),
      (''answers'', JObj (map (\<lambda>kv. (fst kv, JStr (snd kv))) (answers s))),
      (''build_result'', JStr (build_result s)),
      (''refinement_mode'', JBool (refinement_mode s)),
      (''conversation_mode'', JBool (conversation_mode s)),
      (''feedback_mode'', JBool (feedback_mode s)),
      (''user_feedback'', JStr (user_feedback s)),
      (''build_edits'', JList (map JStr (build_edits s))),
      (''created_at'', opt_str_to_json (created_at s)),
      (''last_activity'', opt_str_to_json (last_activity s))]"

text \<open>Reading a JSON value at the type the session field has.\<close>

definition as_int :: "json \<Rightarrow> int option" where
  "as_int j = (case j of JInt i \<Rightarrow> Some i | _ \<Rightarrow> None)"

definition as_str :: "json \<Rightarrow> string option" where
  "as_str j = (case j of JStr t \<Rightarrow> Some t | _ \<Rightarrow> None)"

definition as_bool :: "json \<Rightarrow> bool option" where
  "as_bool j = (case j of JBool b \<Rightarrow> Some b | _ \<Rightarrow> None)"

definition as_opt_str :: "json \<Rightarrow> string option option" where
  "as_opt_str j = (case j of JNull \<Rightarrow> Some None | JStr t \<Rightarrow> Some (Some t) | _ \<Rightarrow> None)"

fun all_some :: "'a option list \<Rightarrow> 'a list option" where
  "all_some [] = Some []"
| "all_some (x # xs) =
     (case x of None \<Rightarrow> None
      | Some v \<Rightarrow> (case all_some xs of None \<Rightarrow> None | Some vs \<Rightarrow> Some (v # vs)))"

definition as_msg :: "json \<Rightarrow> chat_msg option" where
  "as_msg j =
     (case j of
        JObj [(k1, JStr r), (k2, JStr t)] \<Rightarrow>
          if k1 = ''role'' \<and> k2 = ''text'' then Some \<lparr>msg_role = r, msg_text = t\<rparr> else None
      | _ \<Rightarrow> None)"

definition as_msgs :: "json \<Rightarrow> chat_msg list option" where
  "as_msgs j = (case j of JList xs \<Rightarrow> all_some (map as_msg xs) | _ \<Rightarrow> None)"

definition as_strs :: "json \<Rightarrow> string list option" where
  "as_strs j = (case j of JList xs \<Rightarrow> all_some (map as_str xs) | _ \<Rightarrow> None)"

definition as_answers :: "json \<Rightarrow> (string \<times> string) list option" where
  "as_answers j =
     (case j of
        JObj kvs \<Rightarrow> all_some (map (\<lambda>kv. map_option (\<lambda>t. (fst kv, t)) (as_str (snd kv))) kvs)
      | _ \<Rightarrow> None)"

text \<open>\<^verbatim>\<open>data.get(key, default)\<close>\<close>

definition dict_get :: "(string \<times> json) list \<Rightarrow> string \<Rightarrow> json \<Rightarrow> json" where
  "dict_get kvs key dflt = (case map_of kvs key of None \<Rightarrow> dflt | Some v \<Rightarrow> v)"

text \<open>
  The fields of \<^verbatim>\<open>from_dict\<close>, each read with the default of the source:
  \<^verbatim>\<open>[]\<close>, \<^verbatim>\<open>{}\<close>, \<^verbatim>\<open>''\<close>, \<^verbatim>\<open>False\<close>, and \<^verbatim>\<open>None\<close> for the two time stamps.
\<close>

definition typed_fields :: "json \<Rightarrow> (string \<times> json) list \<Rightarrow> session option" where
  "typed_fields uid kvs =
     Option.bind (as_int uid) (\<lambda>u.
     Option.bind (as_msgs (dict_get kvs ''chat_history'' (JList []))) (\<lambda>ch.
     Option.bind (as_answers (dict_get kvs ''answers'' (JObj []))) (\<lambda>an.
     Option.bind (as_str (dict_get kvs ''build_result'' (JStr []))) (\<lambda>br.
     Option.bind (as_bool (dict_get kvs ''refinement_mode'' (JBool False))) (\<lambda>rm.
     Option.bind (as_bool (dict_get kvs ''conversation_mode'' (JBool False))) (\<lambda>cm.
     Option.bind (as_bool (dict_get kvs ''feedback_mode'' (JBool False))) (\<lambda>fm.
     Option.bind (as_str (dict_get kvs ''user_feedback'' (JStr []))) (\<lambda>uf.
     Option.bind (as_strs (dict_get kvs ''build_edits'' (JList []))) (\<lambda>be.
     Option.bind (as_opt_str (dict_get kvs ''created_at'' JNull)) (\<lambda>ca.
     Option.bind (as_opt_str (dict_get kvs ''last_activity'' JNull)) (\<lambda>la.
       Some \<lparr>user_id = u, chat_history = ch, answers = an, build_result = br,
             refinement_mode = rm, conversation_mode = cm, feedback_mode = fm,
             user_feedback = uf, build_edits = be, created_at = ca,
             last_activity = la\<rparr>)))))))))))"

text \<open>
  \<^verbatim>\<open>PCBuilderSession.from_dict\<close>: \<^verbatim>\<open>data['user_id']\<close> raises \<^verbatim>\<open>KeyError\<close> when the key
  is missing and \<^verbatim>\<open>TypeError\<close> when \<open>data\<close> is no dictionary.
\<close>

definition from_dict :: "json \<Rightarrow> error + session" where
  "from_dict data =
     (case data of
        JObj kvs \<Rightarrow>
          (case map_of kvs ''user_id'' of
             None \<Rightarrow> Inl (KeyError ''user_id'')
           | Some uid \<Rightarrow>
               (case typed_fields uid kvs of
                  None \<Rightarrow> Inl (OutsideModel ''session'')
                | Some s \<Rightarrow> Inr s))
      | _ \<Rightarrow> Inl TypeError)"

text \<open>
  The budget text that \<^verbatim>\<open>build_prompt\<close> reads,
  \<^verbatim>\<open>session.answers.get('budget', '$1000')\<close>, and the ceiling it derives from it.
\<close>

definition budget_text :: "session \<Rightarrow> string" where
  "budget_text s = (case map_of (answers s) ''budget'' of None \<Rightarrow> ''$1000'' | Some t \<Rightarrow> t)"

definition budget_ceiling :: "session \<Rightarrow> int" where
  "budget_ceiling s = adjusted_budget (budget_text s)"

section \<open>\<^verbatim>\<open>SessionManager\<close>\<close>

type_synonym sessions = "(int \<times> session) list"

text \<open>
  The loop of \<^verbatim>\<open>load_sessions\<close> over \<^verbatim>\<open>data.items()\<close>. An exception leaves the
  entries stored so far in \<^verbatim>\<open>self.sessions\<close>.
\<close>

fun load_items :: "(string \<times> json) list \<Rightarrow> sessions \<Rightarrow> error option \<times> sessions" where
  "load_items [] sessions = (None, sessions)"
| "load_items ((user_id_str, session_data) # items) sessions =
     (case py_int user_id_str of
        None \<Rightarrow> (Some (ValueError user_id_str), sessions)
      | Some uid \<Rightarrow>
          (case from_dict session_data of
             Inl e \<Rightarrow> (Some e, sessions)
           | Inr s \<Rightarrow> load_items items (dict_set uid s sessions)))"

text \<open>The block under the lock: open the file for reading, parse it, store the entries.\<close>

definition read_mirror :: "sessions \<Rightarrow> world \<Rightarrow> (error option \<times> sessions) \<times> world" where
  "read_mirror sessions w =
     (case mirror w of
        None \<Rightarrow> ((Some FileNotFoundError, sessions), w)
      | Some c \<Rightarrow>
          (case json_load c of
             Inl e \<Rightarrow> ((Some e, sessions), w)
           | Inr (JObj items) \<Rightarrow> (load_items items sessions, w)
           | Inr _ \<Rightarrow> ((Some AttributeError, sessions), w)))"

definition log_line :: "log_line \<Rightarrow> world \<Rightarrow> world" where
  "log_line l w = w\<lparr>logged := logged w @ [l]\<rparr>"

text \<open>
  \<^verbatim>\<open>load_sessions\<close>. Every exception of the body is caught by
  \<^verbatim>\<open>except Exception\<close> and logged; the function returns normally in each case.
\<close>

definition load_sessions :: "sessions \<Rightarrow> world \<Rightarrow> sessions \<times> world" where
  "load_sessions sessions w =
     (if mirror w = None then (sessions, w)
      else
        (case with_FileLock SESSIONS_LOCK_FILE (read_mirror sessions) w of
           (Inl e, w') \<Rightarrow> (sessions, log_line (Error_loading_sessions e) w')
         | (Inr (Some e, sessions'), w') \<Rightarrow> (sessions', log_line (Error_loading_sessions e) w')
         | (Inr (None, sessions'), w') \<Rightarrow> (sessions', w')))"

text \<open>\<^verbatim>\<open>SessionManager.__init__\<close>: an empty dictionary, then \<^verbatim>\<open>load_sessions\<close>.\<close>

definition SessionManager_init :: "world \<Rightarrow> sessions \<times> world" where
  "SessionManager_init w = load_sessions [] w"

text \<open>The dictionary \<^verbatim>\<open>data\<close> that \<^verbatim>\<open>save_sessions\<close> builds.\<close>

definition sessions_data :: "sessions \<Rightarrow> (string \<times> json) list" where
  "sessions_data sessions =
     foldl (\<lambda>data kv. dict_set (str_int (fst kv)) (to_dict (snd kv)) data) [] sessions"

text \<open>
  \<^verbatim>\<open>with open(USER_SESSIONS_FILE, 'w') as f: json.dump(data, f, indent=2)\<close>. Opening
  with mode \<^verbatim>\<open>'w'\<close> creates the file or cuts it to length zero; \<^verbatim>\<open>json.dump\<close> then
  writes into that same file.
\<close>

definition open_w :: "world \<Rightarrow> world" where
  "open_w w = w\<lparr>mirror := Some (NotJson [])\<rparr>"

definition json_dump :: "json \<Rightarrow> world \<Rightarrow> error option \<times> world" where
  "json_dump data w =
     (case write_fails_after w of
        None \<Rightarrow> (None, w\<lparr>mirror := Some (Document data)\<rparr>)
      | Some k \<Rightarrow> (Some OSError, w\<lparr>mirror := Some (Partial data k)\<rparr>))"

definition write_mirror :: "json \<Rightarrow> world \<Rightarrow> error option \<times> world" where
  "write_mirror data w = json_dump data (open_w w)"

definition save_sessions :: "sessions \<Rightarrow> world \<Rightarrow> world" where
  "save_sessions sessions w =
     (let data = JObj (sessions_data sessions)
      in case with_FileLock SESSIONS_LOCK_FILE (write_mirror data) w of
           (Inl e, w') \<Rightarrow> log_line (Error_saving_sessions e) w'
         | (Inr (Some e), w') \<Rightarrow> log_line (Error_saving_sessions e) w'
         | (Inr None, w') \<Rightarrow> w')"



text \<open>
  \<^verbatim>\<open>cleanup_old_sessions\<close>. Time is counted in microseconds; \<open>now\<close> is
  \<^verbatim>\<open>datetime.now()\<close>. \<^verbatim>\<open>datetime.fromisoformat\<close> is the standard library's and is a
  parameter of the model: \<open>fromisoformat t = Some d\<close> when it returns the naive time \<open>d\<close>,
  and \<open>None\<close> when the \<^verbatim>\<open>try\<close> block raises on \<open>t\<close>, because the text does not parse or
  because the parsed time carries a zone and cannot be compared with the cutoff. A
  \<^verbatim>\<open>last_activity\<close> of \<^verbatim>\<open>None\<close> raises \<^verbatim>\<open>TypeError\<close> in the same block.
\<close>

definition is_stale :: "(string \<Rightarrow> int option) \<Rightarrow> int \<Rightarrow> session \<Rightarrow> bool" where
  "is_stale fromisoformat cutoff s =
     (case last_activity s of
        None \<Rightarrow> True
      | Some t \<Rightarrow> (case fromisoformat t of None \<Rightarrow> True | Some d \<Rightarrow> d < cutoff))"

definition to_remove :: "(string \<Rightarrow> int option) \<Rightarrow> int \<Rightarrow> sessions \<Rightarrow> int list" where
  "to_remove fromisoformat cutoff sessions =
     map fst (filter (\<lambda>kv. is_stale fromisoformat cutoff (snd kv)) sessions)"

definition cleanup_old_sessions ::
  "(string \<Rightarrow> int option) \<Rightarrow> int \<Rightarrow> int \<Rightarrow> sessions \<Rightarrow> world \<Rightarrow> sessions \<times> world" where
  "cleanup_old_sessions fromisoformat now max_age_hours sessions w =
     (let cutoff = now - max_age_hours * 3600000000;
          rm = to_remove fromisoformat cutoff sessions;
          sessions' = foldl (\<lambda>m uid. dict_del uid m) sessions rm
      in if rm \<noteq> []
         then (sessions', log_line (Cleaned_up (length rm)) (save_sessions sessions' w))
         else (sessions', w))"

section \<open>The completion policy: \<^verbatim>\<open>are_all_fields_collected\<close>\<close>

definition REQUIRED_FIELDS :: "string list" where
  "REQUIRED_FIELDS =
     [''budget'', ''color'', ''rgb_level'', ''aesthetics'', ''use_case'', ''upgradeability'',
      ''extra_notes'']"

text \<open>\<^verbatim>\<open>field in session.answers and session.answers[field]\<close>\<close>

definition answered :: "session \<Rightarrow> string \<Rightarrow> bool" where
  "answered s field = (case map_of (answers s) field of None \<Rightarrow> False | Some v \<Rightarrow> v \<noteq> [])"

text \<open>\<^verbatim>\<open>chat_text = " ".join([msg.get('text', '') for msg in session.chat_history]).lower()\<close>\<close>

definition chat_text :: "session \<Rightarrow> string" where
  "chat_text s = lower (join '' '' (map msg_text (chat_history s)))"

text \<open>The keyword lists of the seven fallback blocks, in the order of the source.\<close>

definition budget_hints :: "string list" where
  "budget_hints = [''$'', ''dollar'', ''budget'', ''price'', ''cost'', ''around'', ''under'', ''over'']"

definition colors :: "string list" where
  "colors = [''black'', ''white'', ''red'', ''blue'', ''green'', ''pink'', ''purple'', ''rgb'']"

definition rgb_hints :: "string list" where
  "rgb_hints = [''rgb'', ''light'', ''led'', ''none'', ''lots'', ''some'']"

definition aesthetics_hints :: "string list" where
  "aesthetics_hints = [''look'', ''aesthetic'', ''style'', ''performance'', ''balanced'']"

definition games :: "string list" where
  "games = [''fortnite'', ''league'', ''minecraft'', ''valorant'', ''gaming'', ''streaming'', ''work'']"

definition upgrade_hints :: "string list" where
  "upgrade_hints = [''upgrade'', ''wont'', [CHR ''w'', CHR ''o'', CHR ''n'', CHR 0x27, CHR ''t''],
                    ''might'', ''will'', ''nah'']"

definition notes_hints :: "string list" where
  "notes_hints = [''special'', ''request'', ''requirement'', ''need'', ''want'', ''none'', ''no'', ''nah'']"

text \<open>
  One fallback block:
  \<^verbatim>\<open>if field not in collected_fields: if found: collected_fields.add(field)\<close>.
  The set \<^verbatim>\<open>collected_fields\<close> is a list without repetitions.
\<close>

definition fallback :: "string \<Rightarrow> bool \<Rightarrow> string list \<Rightarrow> string list" where
  "fallback field found collected_fields =
     (if field \<notin> set collected_fields
      then (if found then field # collected_fields else collected_fields)
      else collected_fields)"

definition are_all_fields_collected :: "session \<Rightarrow> bool" where
  "are_all_fields_collected s =
     (let c0 = filter (answered s) REQUIRED_FIELDS;
          txt = chat_text s;
          c1 = fallback ''budget'' (any_in budget_hints txt \<and> list_ex isdigit txt) c0;
          c2 = fallback ''color'' (any_in colors txt) c1;
          c3 = fallback ''rgb_level'' (any_in rgb_hints txt) c2;
          c4 = fallback ''aesthetics'' (any_in aesthetics_hints txt) c3;
          c5 = fallback ''use_case'' (any_in games txt) c4;
          c6 = fallback ''upgradeability'' (any_in upgrade_hints txt) c5;
          c7 = fallback ''extra_notes'' (any_in notes_hints txt) c6;
          essential_fields =
            [''budget'', ''color'', ''rgb_level'', ''aesthetics'', ''use_case'',
             ''upgradeability'', ''extra_notes''];
          essential_collected = length (filter (\<lambda>field. field \<in> set c7) essential_fields)
      in essential_collected \<ge> 7)"






section \<open>The conversation: one message at a time\<close>

text \<open>
  The text-generation service is outside the program. Each call of
  \<^verbatim>\<open>model.generate_content\<close> either raises (an error of the service, or its timeout) or
  returns a response whose text may be empty; the outcome of every call of a turn is an
  input of the model. So are the text \<^verbatim>\<open>load_parts_data()\<close> returns (empty when the
  catalog is missing, empty or unreadable) and the readings of the clock. The calls of
  the Discord API are taken to succeed, and the messages sent are collected in a list.
  \<^verbatim>\<open>save_session_compressed\<close> and \<^verbatim>\<open>save_build_to_collective_file\<close> append to text
  logs that are never read back, catch their own exceptions, and change neither the
  session nor the sessions file; they are left out.
\<close>

datatype llm = Raises string | Returns string

record turn_env =
  dialogue :: llm
  refinement :: llm
  build :: llm
  parts_data :: string
  now_iso :: string
  later_iso :: string

datatype outmsg =
    Plain string
  | Thinking
  | Assistant string
  | BuildAssistant string
  | BuildPresentation string
  | FeedbackPrompt
  | RefinementInvite
  | Regenerating
  | Restarting
  | Cancelled
  | Finished

text \<open>The two characters every error text of \<^verbatim>\<open>generate_build\<close> starts with.\<close>

definition cross_mark :: string where
  "cross_mark = [CHR 0xC3, CHR 0xA2, CHR 0xC5, CHR 0x92]"

text \<open>
  \<^verbatim>\<open>PCBuildGenerator.generate_build\<close>. Its \<^verbatim>\<open>try\<close> catches every exception and
  returns an error text instead, so it always returns a text. The prompt that
  \<^verbatim>\<open>build_prompt\<close> assembles is an input of the service and has no other effect; the
  model does not build it.
\<close>

definition generate_build :: "turn_env \<Rightarrow> session \<Rightarrow> string" where
  "generate_build env s =
     (if parts_data env = []
      then cross_mark @ '' Error: Could not load parts data. Please contact an administrator.''
      else
        (case build env of
           Raises e \<Rightarrow> cross_mark @ '' Error generating build: '' @ e
         | Returns t \<Rightarrow>
             if t = []
             then cross_mark @ '' Error: Could not generate build recommendation. Please try again.''
             else t))"

definition handle_refinement_message :: "turn_env \<Rightarrow> session \<Rightarrow> string \<Rightarrow> string \<Rightarrow> string" where
  "handle_refinement_message env s user_message build_text =
     (if parts_data env = []
      then cross_mark @ '' Error: Could not load parts data for refinement.''
      else
        (case refinement env of
           Raises e \<Rightarrow>
             ''Sorry, I ran into an issue there. What were you thinking about changing or asking about your build?''
         | Returns t \<Rightarrow>
             if t = []
             then ''I'm here to help! What would you like to know about your build or what changes are you thinking about?''
             else t))"

text \<open>
  \<^verbatim>\<open>send_build_result\<close>: an error text is sent as it is and nothing else happens;
  a build is presented (the embeds and the file are one \<open>BuildPresentation\<close> here),
  feedback is asked for and \<^verbatim>\<open>feedback_mode\<close> is set.
\<close>

definition send_build_result :: "session \<Rightarrow> string \<Rightarrow> session \<times> outmsg list" where
  "send_build_result s build_text =
     (if startswith build_text cross_mark then (s, [Plain build_text])
      else (s\<lparr>feedback_mode := True\<rparr>, [BuildPresentation build_text, FeedbackPrompt]))"

definition generate_build_from_conversation :: "turn_env \<Rightarrow> session \<Rightarrow> session \<times> outmsg list" where
  "generate_build_from_conversation env s =
     (let build_text = generate_build env s;
          s1 = s\<lparr>build_result := build_text, refinement_mode := True, conversation_mode := False\<rparr>;
          (s2, out) = send_build_result s1 build_text
      in (s2, Thinking # out))"

definition user_msg :: "string \<Rightarrow> chat_msg" where
  "user_msg content = \<lparr>msg_role = ''user'', msg_text = content\<rparr>"

definition assistant_msg :: "string \<Rightarrow> chat_msg" where
  "assistant_msg content = \<lparr>msg_role = ''assistant'', msg_text = content\<rparr>"

definition handle_conversation_mode :: "turn_env \<Rightarrow> string \<Rightarrow> session \<Rightarrow> session \<times> outmsg list" where
  "handle_conversation_mode env content s =
     (let s1 = s\<lparr>chat_history := chat_history s @ [user_msg content]\<rparr>
      in case dialogue env of
           Raises e \<Rightarrow>
             (s1, [Plain ''Sorry, I ran into an issue there. What would you like to know about building a PC?''])
         | Returns t \<Rightarrow>
             (let ai_text =
                (if t = [] then ''I'm here to help! What would you like to know about building a PC?''
                 else t)
              in if str_in ''<READY_TO_BUILD>'' ai_text
                 then generate_build_from_conversation env s1
                 else if are_all_fields_collected s1
                 then generate_build_from_conversation env s1
                 else (update_activity (later_iso env)
                         (s1\<lparr>chat_history := chat_history s1 @ [assistant_msg ai_text]\<rparr>),
                       [Assistant ai_text])))"

definition change_words :: "string list" where
  "change_words =
     [''change'', ''upgrade'', ''downgrade'', ''replace'', ''swap'', ''different'', ''better'',
      ''cheaper'', ''more'', ''less'', ''instead'', ''rather'', ''prefer'']"

definition handle_refinement_conversation ::
  "turn_env \<Rightarrow> string \<Rightarrow> session \<Rightarrow> session \<times> outmsg list" where
  "handle_refinement_conversation env content s =
     (let s1 = (if lower content \<notin> set [''done'', ''restart'', ''cancel'']
                then s\<lparr>build_edits := build_edits s @ [content]\<rparr> else s);
          refinement_response = handle_refinement_message env s1 content (build_result s1);
          made_changes = any_in change_words (lower content)
      in if made_changes \<and> str_in ''change'' (lower refinement_response)
         then (let new_build_result = generate_build env s1;
                   s2 = s1\<lparr>build_result := new_build_result\<rparr>;
                   (s3, out) = send_build_result s2 new_build_result
               in (update_activity (later_iso env) s3,
                   BuildAssistant refinement_response # Regenerating # out))
         else (update_activity (later_iso env) s1, [BuildAssistant refinement_response]))"




text \<open>The three flags that say in which phase of the conversation a session is.\<close>

definition phase :: "session \<Rightarrow> bool \<times> bool \<times> bool" where
  "phase s = (conversation_mode s, refinement_mode s, feedback_mode s)"


section \<open>Sample values for the concrete checks\<close>

definition quiet_world :: world where
  "quiet_world = \<lparr>mirror = None, lock_files = [], logged = [], write_fails_after = None\<rparr>"

definition sample_session :: "int \<Rightarrow> session" where
  "sample_session uid =
     (new_session uid ''2026-01-01T00:00:00'')
       \<lparr>chat_history := [\<lparr>msg_role = ''user'', msg_text = ''around $900''\<rparr>],
        conversation_mode := True\<rparr>"

text \<open>A stand-in for \<^verbatim>\<open>datetime.fromisoformat\<close> that knows two time stamps.\<close>

definition sample_env :: turn_env where
  "sample_env =
     \<lparr>dialogue = Returns ''What colour would you like?'', refinement = Returns ''Sure.'',
      build = Returns ''Budget Build'', parts_data = ''I|CPU|Ryzen 5 $150'',
      now_iso = ''2026-01-01T00:00:01'', later_iso = ''2026-01-01T00:00:02''\<rparr>"

definition sample_fromisoformat :: "string \<Rightarrow> int option" where
  "sample_fromisoformat t =
     (if t = ''2026-01-01T00:00:00'' then Some 0
      else if t = ''2026-01-02T12:00:00'' then Some 129600000000
      else None)"

section \<open>Verification: the budget ceiling\<close>



text \<open>
  Claim C4, as the code computes it. The three budget texts of the specification give
  the ceilings 800, 1700 and 800: for \<open>''1000''\<close> the 85 percent value is 850 and the
  value less 200 is 800, and the smaller one, 800, is the ceiling.
\<close>

theorem budget_examples:
  "adjusted_budget ''1000'' = 800 \<and> adjusted_budget ''2000'' = 1700 \<and>
   adjusted_budget ''no idea, maybe for fortnite'' = 800"
  by code_simp

text \<open>The ceiling stated for the budget text \<open>''1000''\<close>, 650, is not what is computed.\<close>

theorem budget_1000_not_650: "adjusted_budget ''1000'' \<noteq> 650"
  by code_simp



section \<open>Verification: \<^verbatim>\<open>FileLock\<close>\<close>

lemma acquire_held:
  "lock_file \<in> set (lock_files w) \<Longrightarrow> acquire n lock_file w = (False, w)"
  by (induction n) auto

lemma enter_free:
  "lock_file \<notin> set (lock_files w) \<Longrightarrow>
   FileLock_enter lock_file w = (Inr (), w\<lparr>lock_files := lock_file # lock_files w\<rparr>)"
  by (simp add: FileLock_enter_def polls_def eval_nat_numeral)

lemma enter_held:
  "lock_file \<in> set (lock_files w) \<Longrightarrow>
   FileLock_enter lock_file w = (Inl (CouldNotAcquire lock_file), w)"
  by (simp add: FileLock_enter_def acquire_held)

lemma release_absent: "lock_file \<notin> set (lock_files (release lock_file w))"
  by (simp add: release_def)

lemma release_fresh:
  "lock_file \<notin> set (lock_files w) \<Longrightarrow>
   release lock_file (w\<lparr>lock_files := lock_file # lock_files w\<rparr>) = w"
  by (simp add: release_def)

lemma enter_cases:
  "FileLock_enter lock_file w = (r, w1) \<Longrightarrow>
   (r = Inr () \<and> lock_file \<notin> set (lock_files w) \<and>
      w1 = w\<lparr>lock_files := lock_file # lock_files w\<rparr>) \<or>
   (r = Inl (CouldNotAcquire lock_file) \<and> lock_file \<in> set (lock_files w) \<and> w1 = w)"
  by (cases "lock_file \<in> set (lock_files w)") (auto simp: enter_free enter_held)

lemma with_lock_free:
  "lock_file \<notin> set (lock_files w) \<Longrightarrow>
   with_FileLock lock_file body w =
     (Inr (fst (body (w\<lparr>lock_files := lock_file # lock_files w\<rparr>))),
      release lock_file (snd (body (w\<lparr>lock_files := lock_file # lock_files w\<rparr>))))"
  by (simp add: with_FileLock_def enter_free FileLock_exit_def split: prod.splits)

lemma with_lock_held:
  "lock_file \<in> set (lock_files w) \<Longrightarrow>
   with_FileLock lock_file body w = (Inl (CouldNotAcquire lock_file), w)"
  by (simp add: with_FileLock_def enter_held)

text \<open>
  Claim C9. When \<^verbatim>\<open>__enter__\<close> has acquired the lock, the body runs with the marker
  file in place, and whatever the body returns (its outcome \<open>fst (body w1)\<close> may be a
  normal result or an exception it raised) \<^verbatim>\<open>__exit__\<close> releases the lock: the marker
  file does not exist when the \<^verbatim>\<open>with\<close> statement is left.
\<close>

theorem FileLock_scope_releases:
  "fst (FileLock_enter lock_file w) = Inr () \<Longrightarrow>
   lock_file \<in> set (lock_files (snd (FileLock_enter lock_file w))) \<and>
   with_FileLock lock_file body w =
     (Inr (fst (body (snd (FileLock_enter lock_file w)))),
      release lock_file (snd (body (snd (FileLock_enter lock_file w))))) \<and>
   lock_file \<notin> set (lock_files (snd (with_FileLock lock_file body w)))"
proof -
  assume a: "fst (FileLock_enter lock_file w) = Inr ()"
  obtain r w1 where e: "FileLock_enter lock_file w = (r, w1)"
    by (cases "FileLock_enter lock_file w")
  with a have r: "r = Inr ()" by simp
  from enter_cases [OF e] r have w1: "lock_file \<in> set (lock_files w1)" by auto
  obtain x w2 where b: "body w1 = (x, w2)" by (cases "body w1")
  show ?thesis using e r w1 b
    by (simp add: with_FileLock_def FileLock_exit_def release_absent)
qed

theorem FileLock_scope_releases_witness:
  "fst (FileLock_enter SESSIONS_LOCK_FILE quiet_world) = Inr () \<and>
   SESSIONS_LOCK_FILE \<notin> set (lock_files (snd
     (with_FileLock SESSIONS_LOCK_FILE (\<lambda>w. (Some OSError, w)) quiet_world))) \<and>
   SESSIONS_LOCK_FILE \<notin> set (lock_files (snd
     (with_FileLock SESSIONS_LOCK_FILE (\<lambda>w. (None :: error option, w)) quiet_world)))"
proof -
  have h: "fst (FileLock_enter SESSIONS_LOCK_FILE quiet_world) = Inr ()"
    by (simp add: enter_free quiet_world_def)
  show ?thesis
    using FileLock_scope_releases [OF h, of "\<lambda>w. (Some OSError, w)"]
      FileLock_scope_releases [OF h, of "\<lambda>w. (None :: error option, w)"] h
    by blast
qed

section \<open>Verification: loading the sessions file\<close>

lemma read_mirror_lock_files:
  "read_mirror sessions (w\<lparr>lock_files := l\<rparr>) =
   (fst (read_mirror sessions w), w\<lparr>lock_files := l\<rparr>)"
  by (simp add: read_mirror_def split: option.splits sum.splits json.splits)


lemma read_mirror_unparsable:
  "mirror w = Some c \<Longrightarrow> json_load c = Inl e \<Longrightarrow>
   fst (read_mirror sessions w) = (Some e, sessions)"
  by (simp add: read_mirror_def)

lemma load_sessions_unparsable:
  assumes "mirror w = Some c" "json_load c = Inl e"
  shows "fst (load_sessions sessions w) = sessions \<and>
         (\<exists>e'. snd (load_sessions sessions w) = log_line (Error_loading_sessions e') w)"
proof (cases "SESSIONS_LOCK_FILE \<in> set (lock_files w)")
  case True
  then show ?thesis using assms
    by (auto simp: load_sessions_def with_lock_held)
next
  case False
  then show ?thesis using assms
    by (auto simp: load_sessions_def with_lock_free read_mirror_lock_files
        read_mirror_unparsable release_fresh)
qed



section \<open>Verification: writing the sessions file\<close>

lemma save_sessions_held:
  "SESSIONS_LOCK_FILE \<in> set (lock_files w) \<Longrightarrow>
   save_sessions ss w = log_line (Error_saving_sessions (CouldNotAcquire SESSIONS_LOCK_FILE)) w"
  by (simp add: save_sessions_def with_lock_held)

lemma save_sessions_written:
  "SESSIONS_LOCK_FILE \<notin> set (lock_files w) \<Longrightarrow> write_fails_after w = None \<Longrightarrow>
   save_sessions ss w = w\<lparr>mirror := Some (Document (JObj (sessions_data ss)))\<rparr>"
  by (simp add: save_sessions_def with_lock_free write_mirror_def open_w_def json_dump_def
      release_def)

lemma save_sessions_failed:
  "SESSIONS_LOCK_FILE \<notin> set (lock_files w) \<Longrightarrow> write_fails_after w = Some k \<Longrightarrow>
   save_sessions ss w =
     log_line (Error_saving_sessions OSError)
       (w\<lparr>mirror := Some (Partial (JObj (sessions_data ss)) k)\<rparr>)"
  by (simp add: save_sessions_def with_lock_free write_mirror_def open_w_def json_dump_def
      release_def log_line_def)

subsection \<open>Decimal keys\<close>

lemma int_of_digits_snoc:
  "int_of_digits (xs @ [c]) = 10 * int_of_digits xs + digit_val c"
  by (simp add: int_of_digits_def)

lemma digit_val_char: "d < 10 \<Longrightarrow> digit_val (char_of (48 + d :: nat)) = int d"
  by (simp add: digit_val_def)

lemma isdigit_char: "d < 10 \<Longrightarrow> isdigit (char_of (48 + d :: nat))"
  by (simp add: isdigit_def)

lemma int_of_digits_of_nat: "int_of_digits (digits_of_nat n) = int n"
proof (induction n rule: digits_of_nat.induct)
  case (1 n)
  show ?case
  proof (cases "n < 10")
    case True
    then show ?thesis
      by (subst digits_of_nat.simps) (simp add: int_of_digits_def digit_val_char)
  next
    case False
    then have "int_of_digits (digits_of_nat n) =
        10 * int_of_digits (digits_of_nat (n div 10)) + digit_val (char_of (48 + n mod 10))"
      by (subst digits_of_nat.simps) (simp add: int_of_digits_snoc)
    also have "\<dots> = 10 * int (n div 10) + int (n mod 10)"
      using 1 False by (simp add: digit_val_char)
    also have "\<dots> = int n" by presburger
    finally show ?thesis .
  qed
qed

lemma digits_of_nat_all: "list_all isdigit (digits_of_nat n) \<and> digits_of_nat n \<noteq> []"
proof (induction n rule: digits_of_nat.induct)
  case (1 n)
  show ?case
  proof (cases "n < 10")
    case True
    then show ?thesis by (subst (1 2) digits_of_nat.simps) (simp add: isdigit_char)
  next
    case False
    then show ?thesis using 1 by (subst (1 2) digits_of_nat.simps) (simp add: isdigit_char)
  qed
qed

lemma all_digits_of_nat: "all_digits (digits_of_nat n)"
  using digits_of_nat_all by (simp add: all_digits_def)

lemma digits_of_nat_hd: "\<exists>c cs. digits_of_nat n = c # cs \<and> isdigit c"
  using digits_of_nat_all [of n] by (cases "digits_of_nat n") auto

lemma isdigit_not_sign: "isdigit c \<Longrightarrow> c \<noteq> CHR ''-'' \<and> c \<noteq> CHR ''+''"
  by (auto simp: isdigit_def)

lemma py_int_digits: "py_int (digits_of_nat n) = Some (int n)"
proof -
  obtain c cs where d: "digits_of_nat n = c # cs" "isdigit c"
    using digits_of_nat_hd by blast
  have "all_digits (c # cs)" using all_digits_of_nat [of n] d by simp
  moreover have "int_of_digits (c # cs) = int n" using int_of_digits_of_nat [of n] d by simp
  ultimately show ?thesis using d isdigit_not_sign [of c]
    by (simp add: py_int_def)
qed

lemma py_int_str_int: "py_int (str_int i) = Some i"
proof (cases "i < 0")
  case True
  then show ?thesis
    by (simp add: str_int_def py_int_def all_digits_of_nat int_of_digits_of_nat)
next
  case False
  then show ?thesis by (simp add: str_int_def py_int_digits)
qed

lemma str_int_inj: "str_int i = str_int j \<Longrightarrow> i = j"
  by (metis py_int_str_int option.inject)

subsection \<open>\<^verbatim>\<open>to_dict\<close> and \<^verbatim>\<open>from_dict\<close>\<close>

lemma all_some_map:
  "(\<And>x. dec (enc x) = Some x) \<Longrightarrow> all_some (map (dec \<circ> enc) xs) = Some xs"
  by (induction xs) auto

lemma as_msg_to_json: "as_msg (msg_to_json m) = Some m"
  by (simp add: as_msg_def msg_to_json_def)

lemma as_msgs_to_json: "as_msgs (JList (map msg_to_json ms)) = Some ms"
  by (simp add: as_msgs_def all_some_map as_msg_to_json)

lemma as_strs_to_json: "as_strs (JList (map JStr xs)) = Some xs"
  by (simp add: as_strs_def all_some_map as_str_def)

lemma as_answers_to_json:
  "as_answers (JObj (map (\<lambda>kv. (fst kv, JStr (snd kv))) an)) = Some an"
  by (induction an) (auto simp: as_answers_def as_str_def)

lemma as_opt_str_to_json: "as_opt_str (opt_str_to_json x) = Some x"
  by (cases x) (simp_all add: as_opt_str_def opt_str_to_json_def)

lemma from_dict_to_dict: "from_dict (to_dict s) = Inr s"
  by (simp add: from_dict_def to_dict_def typed_fields_def dict_get_def as_int_def as_str_def
      as_bool_def as_msgs_to_json as_strs_to_json as_answers_to_json as_opt_str_to_json)

subsection \<open>Writing, then loading\<close>

lemma dict_set_fresh: "k \<notin> fst ` set kvs \<Longrightarrow> dict_set k v kvs = kvs @ [(k, v)]"
  by (induction kvs) auto

lemma foldl_data_distinct:
  "distinct (map fst ss) \<Longrightarrow> str_int ` fst ` set ss \<inter> fst ` set acc = {} \<Longrightarrow>
   foldl (\<lambda>data kv. dict_set (str_int (fst kv)) (to_dict (snd kv)) data) acc ss =
   acc @ map (\<lambda>kv. (str_int (fst kv), to_dict (snd kv))) ss"
proof (induction ss arbitrary: acc)
  case Nil
  then show ?case by simp
next
  case (Cons kv ss)
  have fresh: "str_int (fst kv) \<notin> fst ` set acc" using Cons.prems(2) by auto
  have d: "distinct (map fst ss)" and nk: "fst kv \<notin> fst ` set ss" using Cons.prems(1) by auto
  have "str_int ` fst ` set ss \<inter> fst ` set (acc @ [(str_int (fst kv), to_dict (snd kv))]) = {}"
    using Cons.prems(2) nk by (auto dest: str_int_inj)
  from Cons.IH [OF d this] show ?case
    by (simp add: dict_set_fresh [OF fresh])
qed

lemma sessions_data_distinct:
  "distinct (map fst ss) \<Longrightarrow>
   sessions_data ss = map (\<lambda>kv. (str_int (fst kv), to_dict (snd kv))) ss"
  unfolding sessions_data_def using foldl_data_distinct [of ss "[]"] by simp

lemma load_items_saved:
  "distinct (map fst ss) \<Longrightarrow> fst ` set ss \<inter> fst ` set acc = {} \<Longrightarrow>
   load_items (map (\<lambda>kv. (str_int (fst kv), to_dict (snd kv))) ss) acc = (None, acc @ ss)"
proof (induction ss arbitrary: acc)
  case Nil
  then show ?case by simp
next
  case (Cons kv ss)
  have fresh: "fst kv \<notin> fst ` set acc" using Cons.prems(2) by auto
  have d: "distinct (map fst ss)" and nk: "fst kv \<notin> fst ` set ss" using Cons.prems(1) by auto
  have "fst ` set ss \<inter> fst ` set (acc @ [(fst kv, snd kv)]) = {}"
    using Cons.prems(2) nk by auto
  from Cons.IH [OF d this] show ?case
    by (simp add: py_int_str_int from_dict_to_dict dict_set_fresh [OF fresh])
qed

lemma load_document:
  assumes "distinct (map fst ss)"
    and "SESSIONS_LOCK_FILE \<notin> set (lock_files w)"
    and "mirror w = Some (Document (JObj (sessions_data ss)))"
  shows "fst (load_sessions [] w) = ss"
proof -
  have r: "fst (read_mirror [] w) = (None, ss)"
    using load_items_saved [OF assms(1), of "[]"] assms(3)
    by (simp add: read_mirror_def json_load_def sessions_data_distinct [OF assms(1)])
  show ?thesis
    using assms(2,3) r by (simp add: load_sessions_def with_lock_free read_mirror_lock_files)
qed

text \<open>
  Claim C6. For a session dictionary (its keys are distinct), with the lock free and a
  disk that takes the write, \<^verbatim>\<open>save_sessions\<close> followed by the \<^verbatim>\<open>load_sessions\<close> of a
  fresh \<^verbatim>\<open>SessionManager\<close> gives back the same dictionary: every user id has the same
  session, equal in all eleven fields.
\<close>

theorem flush_load_roundtrip:
  assumes "distinct (map fst ss)"
    and "SESSIONS_LOCK_FILE \<notin> set (lock_files w)"
    and "write_fails_after w = None"
  shows "fst (SessionManager_init (save_sessions ss w)) = ss \<and>
         (\<forall>uid. map_of (fst (SessionManager_init (save_sessions ss w))) uid = map_of ss uid)"
proof -
  let ?w = "w\<lparr>mirror := Some (Document (JObj (sessions_data ss)))\<rparr>"
  have s: "save_sessions ss w = ?w" using assms by (simp add: save_sessions_written)
  have "fst (load_sessions [] ?w) = ss"
    using assms by (intro load_document) simp_all
  then show ?thesis by (simp add: s SessionManager_init_def)
qed

theorem flush_load_roundtrip_witness:
  "distinct (map fst [(7 :: int, sample_session 7), (8, sample_session 8)]) \<and>
   SESSIONS_LOCK_FILE \<notin> set (lock_files quiet_world) \<and>
   write_fails_after quiet_world = None \<and>
   fst (SessionManager_init (save_sessions [(7, sample_session 7), (8, sample_session 8)] quiet_world))
     = [(7, sample_session 7), (8, sample_session 8)]"
proof -
  have d: "distinct (map fst [(7 :: int, sample_session 7), (8, sample_session 8)])" by simp
  have l: "SESSIONS_LOCK_FILE \<notin> set (lock_files quiet_world)" by (simp add: quiet_world_def)
  have f: "write_fails_after quiet_world = None" by (simp add: quiet_world_def)
  show ?thesis using flush_load_roundtrip [OF d l f] d l f by blast
qed

text \<open>
  Claim C1, as the code behaves. \<^verbatim>\<open>save_sessions\<close> has no temporary file: it opens the
  sessions file itself for writing. A state with the session of user 7 was written
  before and loads; the next \<^verbatim>\<open>save_sessions\<close> fails before its first character is on
  disk, and after it the file no longer holds the earlier state and the next load has no
  session at all.
\<close>

theorem flush_partial_write_loses_state:
  "fst (SessionManager_init
      (quiet_world\<lparr>mirror := Some (Document (JObj (sessions_data [(7, sample_session 7)]))),
                   write_fails_after := Some 0\<rparr>)) = [(7, sample_session 7)] \<and>
   mirror (save_sessions [(7, sample_session 7), (8, sample_session 8)]
      (quiet_world\<lparr>mirror := Some (Document (JObj (sessions_data [(7, sample_session 7)]))),
                   write_fails_after := Some 0\<rparr>))
     \<noteq> Some (Document (JObj (sessions_data [(7, sample_session 7)]))) \<and>
   fst (SessionManager_init
      (save_sessions [(7, sample_session 7), (8, sample_session 8)]
         (quiet_world\<lparr>mirror := Some (Document (JObj (sessions_data [(7, sample_session 7)]))),
                      write_fails_after := Some 0\<rparr>))) = []"
proof -
  let ?old = "Some (Document (JObj (sessions_data [(7, sample_session 7)])))"
  let ?w = "quiet_world\<lparr>mirror := ?old, write_fails_after := Some 0\<rparr>"
  let ?new = "[(7, sample_session 7), (8, sample_session 8)]"
  have free: "SESSIONS_LOCK_FILE \<notin> set (lock_files ?w)" by (simp add: quiet_world_def)
  have a: "fst (SessionManager_init ?w) = [(7, sample_session 7)]"
    unfolding SessionManager_init_def
    by (rule load_document) (simp_all add: quiet_world_def)
  have s: "save_sessions ?new ?w =
      log_line (Error_saving_sessions OSError)
        (?w\<lparr>mirror := Some (Partial (JObj (sessions_data ?new)) 0)\<rparr>)"
    by (rule save_sessions_failed [OF free]) simp
  have m: "mirror (save_sessions ?new ?w) = Some (Partial (JObj (sessions_data ?new)) 0)"
    by (simp add: s log_line_def)
  have c: "fst (SessionManager_init (save_sessions ?new ?w)) = []"
    unfolding SessionManager_init_def
    using load_sessions_unparsable [OF m, of JSONDecodeError "[]"]
    by (simp add: json_load_def)
  show ?thesis using a c by (simp add: m)
qed

text \<open>
  Claim C1, amended. \<^verbatim>\<open>save_sessions\<close> writes the sessions file in place, under the
  lock. When the lock cannot be acquired the file is left as it was. When the write
  completes, the file holds exactly the serialisation of the whole dictionary and nothing
  else changes. When the write fails after \<open>k\<close> characters, the exception is caught and
  logged, the file is left holding those \<open>k\<close> characters of the new text, and a later
  load starts with no session: the earlier state is not kept.
\<close>

theorem flush_in_place:
  "(SESSIONS_LOCK_FILE \<in> set (lock_files w) \<longrightarrow>
      mirror (save_sessions ss w) = mirror w) \<and>
   (SESSIONS_LOCK_FILE \<notin> set (lock_files w) \<and> write_fails_after w = None \<longrightarrow>
      save_sessions ss w = w\<lparr>mirror := Some (Document (JObj (sessions_data ss)))\<rparr>) \<and>
   (SESSIONS_LOCK_FILE \<notin> set (lock_files w) \<and> write_fails_after w = Some k \<longrightarrow>
      save_sessions ss w =
        w\<lparr>mirror := Some (Partial (JObj (sessions_data ss)) k),
          logged := logged w @ [Error_saving_sessions OSError]\<rparr> \<and>
      fst (SessionManager_init (save_sessions ss w)) = [])"
proof (intro conjI impI)
  assume "SESSIONS_LOCK_FILE \<in> set (lock_files w)"
  then show "mirror (save_sessions ss w) = mirror w"
    by (simp add: save_sessions_held log_line_def)
next
  assume "SESSIONS_LOCK_FILE \<notin> set (lock_files w) \<and> write_fails_after w = None"
  then show "save_sessions ss w = w\<lparr>mirror := Some (Document (JObj (sessions_data ss)))\<rparr>"
    by (simp add: save_sessions_written)
next
  assume a: "SESSIONS_LOCK_FILE \<notin> set (lock_files w) \<and> write_fails_after w = Some k"
  then show s: "save_sessions ss w =
        w\<lparr>mirror := Some (Partial (JObj (sessions_data ss)) k),
          logged := logged w @ [Error_saving_sessions OSError]\<rparr>"
    by (simp add: save_sessions_failed log_line_def)
  have m: "mirror (save_sessions ss w) = Some (Partial (JObj (sessions_data ss)) k)"
    by (simp add: s)
  show "fst (SessionManager_init (save_sessions ss w)) = []"
    unfolding SessionManager_init_def
    using load_sessions_unparsable [OF m, of JSONDecodeError "[]"]
    by (simp add: json_load_def)
qed

theorem flush_in_place_witness:
  "mirror (save_sessions [(7, sample_session 7)] (quiet_world\<lparr>lock_files := [SESSIONS_LOCK_FILE]\<rparr>))
     = None \<and>
   mirror (save_sessions [(7, sample_session 7)] quiet_world)
     = Some (Document (JObj (sessions_data [(7, sample_session 7)]))) \<and>
   mirror (save_sessions [(7, sample_session 7)] (quiet_world\<lparr>write_fails_after := Some 3\<rparr>))
     = Some (Partial (JObj (sessions_data [(7, sample_session 7)])) 3) \<and>
   fst (SessionManager_init
     (save_sessions [(7, sample_session 7)] (quiet_world\<lparr>write_fails_after := Some 3\<rparr>))) = []"
proof -
  let ?held = "quiet_world\<lparr>lock_files := [SESSIONS_LOCK_FILE]\<rparr>"
  let ?full = "quiet_world\<lparr>write_fails_after := Some 3\<rparr>"
  let ?ss = "[(7, sample_session 7)]"
  have h1: "SESSIONS_LOCK_FILE \<in> set (lock_files ?held)" by simp
  have m1: "mirror ?held = None" by (simp add: quiet_world_def)
  have h2: "SESSIONS_LOCK_FILE \<notin> set (lock_files quiet_world) \<and>
      write_fails_after quiet_world = None"
    by (simp add: quiet_world_def)
  have h3: "SESSIONS_LOCK_FILE \<notin> set (lock_files ?full) \<and> write_fails_after ?full = Some 3"
    by (simp add: quiet_world_def)
  have c1: "mirror (save_sessions ?ss ?held) = None"
    using flush_in_place [of ?held ?ss 0] h1 m1 by simp
  have c2: "save_sessions ?ss quiet_world =
      quiet_world\<lparr>mirror := Some (Document (JObj (sessions_data ?ss)))\<rparr>"
    using flush_in_place [of quiet_world ?ss 0] h2 by blast
  have c3: "save_sessions ?ss ?full =
      ?full\<lparr>mirror := Some (Partial (JObj (sessions_data ?ss)) 3),
             logged := logged ?full @ [Error_saving_sessions OSError]\<rparr> \<and>
      fst (SessionManager_init (save_sessions ?ss ?full)) = []"
    using flush_in_place [of ?full ?ss 3] h3 by blast
  have c2': "mirror (save_sessions ?ss quiet_world) = Some (Document (JObj (sessions_data ?ss)))"
    by (subst c2) simp
  have c3': "mirror (save_sessions ?ss ?full) = Some (Partial (JObj (sessions_data ?ss)) 3)"
    by (subst c3 [THEN conjunct1]) simp
  show ?thesis using c1 c2' c3' c3 [THEN conjunct2] by blast
qed

section \<open>Verification: evicting stale sessions\<close>

lemma foldl_dict_del:
  "foldl (\<lambda>m uid. dict_del uid m) ss rm = filter (\<lambda>kv. fst kv \<notin> set rm) ss"
proof (induction rm arbitrary: ss)
  case Nil
  then show ?case by simp
next
  case (Cons k rm)
  have "foldl (\<lambda>m uid. dict_del uid m) k_del rm = filter (\<lambda>kv. fst kv \<notin> set rm) k_del"
    for k_del :: "('a \<times> 'b) list"
    by (rule Cons.IH)
  then show ?case by (simp add: dict_del_def conj_commute)
qed

lemma cleanup_sessions:
  "fst (cleanup_old_sessions f now h ss w) =
   filter (\<lambda>kv. fst kv \<notin> set (to_remove f (now - h * 3600000000) ss)) ss"
  by (simp add: cleanup_old_sessions_def Let_def foldl_dict_del)

lemma to_remove_after:
  "to_remove f c (filter (\<lambda>kv. fst kv \<notin> set (to_remove f c ss)) ss) = []"
  by (auto simp: to_remove_def filter_empty_conv image_iff)

lemma cleanup_nothing_stale:
  "to_remove f (now - h * 3600000000) ss = [] \<Longrightarrow> cleanup_old_sessions f now h ss w = (ss, w)"
  by (simp add: cleanup_old_sessions_def Let_def)

text \<open>
  Claim C7. After one call of \<^verbatim>\<open>cleanup_old_sessions\<close>, a second call with the same
  clock reading and the same maximal age finds nothing to remove: it returns the
  dictionary and the world as they are, so it deletes no session, writes no file and
  logs nothing.
\<close>

theorem evict_stale_idempotent:
  "cleanup_old_sessions f now h ss w = (ss1, w1) \<Longrightarrow>
   to_remove f (now - h * 3600000000) ss1 = [] \<and>
   cleanup_old_sessions f now h ss1 w1 = (ss1, w1)"
proof -
  assume a: "cleanup_old_sessions f now h ss w = (ss1, w1)"
  have "ss1 = filter (\<lambda>kv. fst kv \<notin> set (to_remove f (now - h * 3600000000) ss)) ss"
    using cleanup_sessions [of f now h ss w] a by simp
  then have "to_remove f (now - h * 3600000000) ss1 = []" by (simp add: to_remove_after)
  then show ?thesis by (simp add: cleanup_nothing_stale)
qed

lemma sample_cleanup:
  "cleanup_old_sessions sample_fromisoformat 172800000000 24
     [(7, sample_session 7), (8, (sample_session 8)\<lparr>last_activity := None\<rparr>),
      (9, (sample_session 9)\<lparr>last_activity := Some ''2026-01-02T12:00:00''\<rparr>)] quiet_world =
   ([(9, (sample_session 9)\<lparr>last_activity := Some ''2026-01-02T12:00:00''\<rparr>)],
    quiet_world\<lparr>mirror := Some (Document (JObj (sessions_data
        [(9, (sample_session 9)\<lparr>last_activity := Some ''2026-01-02T12:00:00''\<rparr>)]))),
      logged := [Cleaned_up 2]\<rparr>)"
  by (simp add: cleanup_old_sessions_def to_remove_def is_stale_def sample_fromisoformat_def
      sample_session_def new_session_def dict_del_def save_sessions_written quiet_world_def
      SESSIONS_LOCK_FILE_def log_line_def Let_def)

theorem evict_stale_idempotent_witness:
  "cleanup_old_sessions sample_fromisoformat 172800000000 24
     [(7, sample_session 7), (8, (sample_session 8)\<lparr>last_activity := None\<rparr>),
      (9, (sample_session 9)\<lparr>last_activity := Some ''2026-01-02T12:00:00''\<rparr>)] quiet_world =
   ([(9, (sample_session 9)\<lparr>last_activity := Some ''2026-01-02T12:00:00''\<rparr>)],
    quiet_world\<lparr>mirror := Some (Document (JObj (sessions_data
        [(9, (sample_session 9)\<lparr>last_activity := Some ''2026-01-02T12:00:00''\<rparr>)]))),
      logged := [Cleaned_up 2]\<rparr>) \<and>
   cleanup_old_sessions sample_fromisoformat 172800000000 24
     [(9, (sample_session 9)\<lparr>last_activity := Some ''2026-01-02T12:00:00''\<rparr>)]
     (quiet_world\<lparr>mirror := Some (Document (JObj (sessions_data
        [(9, (sample_session 9)\<lparr>last_activity := Some ''2026-01-02T12:00:00''\<rparr>)]))),
      logged := [Cleaned_up 2]\<rparr>) =
   ([(9, (sample_session 9)\<lparr>last_activity := Some ''2026-01-02T12:00:00''\<rparr>)],
    quiet_world\<lparr>mirror := Some (Document (JObj (sessions_data
        [(9, (sample_session 9)\<lparr>last_activity := Some ''2026-01-02T12:00:00''\<rparr>)]))),
      logged := [Cleaned_up 2]\<rparr>)"
  using evict_stale_idempotent [OF sample_cleanup] sample_cleanup by blast

lemma in_to_remove:
  "(uid, s) \<in> set ss \<Longrightarrow> is_stale f c s \<Longrightarrow> uid \<in> set (to_remove f c ss)"
  by (force simp: to_remove_def)

lemma to_remove_distinct:
  assumes "distinct (map fst ss)" and "(uid, s) \<in> set ss"
  shows "(uid \<in> set (to_remove f c ss)) = is_stale f c s"
proof
  assume "uid \<in> set (to_remove f c ss)"
  then obtain s' where s': "(uid, s') \<in> set ss" "is_stale f c s'"
    by (auto simp: to_remove_def)
  with assms have "s' = s" by (meson eq_key_imp_eq_value)
  with s' show "is_stale f c s" by simp
next
  assume "is_stale f c s"
  with assms(2) show "uid \<in> set (to_remove f c ss)" by (rule in_to_remove)
qed

lemma kept_iff:
  "(uid, s) \<in> set ss \<Longrightarrow>
   uid \<in> fst ` set (fst (cleanup_old_sessions f now h ss w)) \<longleftrightarrow>
   uid \<notin> set (to_remove f (now - h * 3600000000) ss)"
  by (force simp: cleanup_sessions)

text \<open>
  Claim C10. A session whose \<^verbatim>\<open>last_activity\<close> is \<^verbatim>\<open>None\<close>, or is a text on which the
  \<^verbatim>\<open>try\<close> block raises, is removed by \<^verbatim>\<open>cleanup_old_sessions\<close> whatever the clock and the
  maximal age are. A session whose \<^verbatim>\<open>last_activity\<close> parses to the time \<open>d\<close> is kept
  exactly when \<open>d\<close> is not before the cutoff.
\<close>

theorem evict_unparsable_activity:
  assumes "(uid, s) \<in> set ss"
  shows "(last_activity s = None \<or> (\<exists>t. last_activity s = Some t \<and> f t = None) \<longrightarrow>
            uid \<notin> fst ` set (fst (cleanup_old_sessions f now h ss w))) \<and>
         (distinct (map fst ss) \<longrightarrow>
            (\<forall>t d. last_activity s = Some t \<and> f t = Some d \<longrightarrow>
               (uid \<in> fst ` set (fst (cleanup_old_sessions f now h ss w))
                  \<longleftrightarrow> \<not> d < now - h * 3600000000)))"
proof (intro conjI impI allI)
  assume "last_activity s = None \<or> (\<exists>t. last_activity s = Some t \<and> f t = None)"
  then have "is_stale f (now - h * 3600000000) s" by (auto simp: is_stale_def)
  then show "uid \<notin> fst ` set (fst (cleanup_old_sessions f now h ss w))"
    using kept_iff [OF assms] in_to_remove [OF assms] by simp
next
  fix t d
  assume d: "distinct (map fst ss)" and p: "last_activity s = Some t \<and> f t = Some d"
  then have "is_stale f (now - h * 3600000000) s \<longleftrightarrow> d < now - h * 3600000000"
    by (simp add: is_stale_def)
  then show "uid \<in> fst ` set (fst (cleanup_old_sessions f now h ss w))
       \<longleftrightarrow> \<not> d < now - h * 3600000000"
    using kept_iff [OF assms] to_remove_distinct [OF d assms] by simp
qed

theorem evict_unparsable_activity_witness:
  "(8 :: int, (sample_session 8)\<lparr>last_activity := None\<rparr>) \<in> set
     [(7 :: int, sample_session 7), (8, (sample_session 8)\<lparr>last_activity := None\<rparr>),
      (9, (sample_session 9)\<lparr>last_activity := Some ''yesterday''\<rparr>)] \<and>
   sample_fromisoformat ''yesterday'' = None \<and>
   sample_fromisoformat ''2026-01-01T00:00:00'' = Some 0 \<and>
   8 \<notin> fst ` set (fst (cleanup_old_sessions sample_fromisoformat 3600000000 24
     [(7 :: int, sample_session 7), (8, (sample_session 8)\<lparr>last_activity := None\<rparr>),
      (9, (sample_session 9)\<lparr>last_activity := Some ''yesterday''\<rparr>)] quiet_world)) \<and>
   9 \<notin> fst ` set (fst (cleanup_old_sessions sample_fromisoformat 3600000000 24
     [(7 :: int, sample_session 7), (8, (sample_session 8)\<lparr>last_activity := None\<rparr>),
      (9, (sample_session 9)\<lparr>last_activity := Some ''yesterday''\<rparr>)] quiet_world)) \<and>
   7 \<in> fst ` set (fst (cleanup_old_sessions sample_fromisoformat 3600000000 24
     [(7 :: int, sample_session 7), (8, (sample_session 8)\<lparr>last_activity := None\<rparr>),
      (9, (sample_session 9)\<lparr>last_activity := Some ''yesterday''\<rparr>)] quiet_world))"
proof -
  let ?s8 = "(sample_session 8)\<lparr>last_activity := None\<rparr>"
  let ?s9 = "(sample_session 9)\<lparr>last_activity := Some ''yesterday''\<rparr>"
  let ?ss = "[(7 :: int, sample_session 7), (8, ?s8), (9, ?s9)]"
  have m7: "(7, sample_session 7) \<in> set ?ss" and m8: "(8, ?s8) \<in> set ?ss"
    and m9: "(9, ?s9) \<in> set ?ss" by simp_all
  have d: "distinct (map fst ?ss)" by simp
  have p9: "sample_fromisoformat ''yesterday'' = None" by (simp add: sample_fromisoformat_def)
  have p7: "sample_fromisoformat ''2026-01-01T00:00:00'' = Some 0"
    by (simp add: sample_fromisoformat_def)
  have l7: "last_activity (sample_session 7) = Some ''2026-01-01T00:00:00''"
    by (simp add: sample_session_def new_session_def)
  have c8: "8 \<notin> fst ` set (fst (cleanup_old_sessions sample_fromisoformat 3600000000 24 ?ss quiet_world))"
    using evict_unparsable_activity [OF m8, of sample_fromisoformat 3600000000 24 quiet_world]
    by simp
  have c9: "9 \<notin> fst ` set (fst (cleanup_old_sessions sample_fromisoformat 3600000000 24 ?ss quiet_world))"
    using evict_unparsable_activity [OF m9, of sample_fromisoformat 3600000000 24 quiet_world] p9
    by simp
  have c7: "7 \<in> fst ` set (fst (cleanup_old_sessions sample_fromisoformat 3600000000 24 ?ss quiet_world))"
    using evict_unparsable_activity [OF m7, of sample_fromisoformat 3600000000 24 quiet_world,
        THEN conjunct2, rule_format, OF d, of "''2026-01-01T00:00:00''" 0] p7 l7
    by simp
  show ?thesis using m8 p9 p7 c8 c9 c7 by blast
qed

section \<open>Verification: the completion policy\<close>




subsection \<open>The order of the messages does not matter\<close>
















section \<open>Verification: the conversation\<close>













lemma conversation_turn_raises:
  assumes "dialogue env = Raises e"
  shows "handle_conversation_mode env c s =
     (s\<lparr>chat_history := chat_history s @ [user_msg c]\<rparr>,
      [Plain ''Sorry, I ran into an issue there. What would you like to know about building a PC?''])"
  using assms by (simp add: handle_conversation_mode_def Let_def)






text \<open>
  Claim C2, as the code behaves. The session is collecting; the reply of the dialogue call
  ends with the ready marker, and the call inside \<^verbatim>\<open>generate_build\<close> then times out.
  \<^verbatim>\<open>generate_build\<close> returns an error text, and
  \<^verbatim>\<open>generate_build_from_conversation\<close> stores it and switches the session from
  conversation mode to refinement mode.
\<close>

theorem generation_failure_moves_phase:
  "build (sample_env\<lparr>dialogue := Returns ''Great, that is all I need. <READY_TO_BUILD>'',
                     build := Raises ''timeout''\<rparr>) = Raises ''timeout'' \<and>
   phase (sample_session 1) = (True, False, False) \<and>
   phase (fst (handle_conversation_mode
      (sample_env\<lparr>dialogue := Returns ''Great, that is all I need. <READY_TO_BUILD>'',
                  build := Raises ''timeout''\<rparr>) ''mostly fortnite'' (sample_session 1)))
     = (False, True, False) \<and>
   snd (handle_conversation_mode
      (sample_env\<lparr>dialogue := Returns ''Great, that is all I need. <READY_TO_BUILD>'',
                  build := Raises ''timeout''\<rparr>) ''mostly fortnite'' (sample_session 1))
     = [Thinking, Plain (cross_mark @ '' Error generating build: timeout'')]"
  by code_simp

lemma generate_build_failure:
  "parts_data env \<noteq> [] \<Longrightarrow> (\<exists>e. build env = Raises e) \<or> build env = Returns [] \<Longrightarrow>
   startswith (generate_build env s) cross_mark"
  by (auto simp: generate_build_def cross_mark_def)

lemma refinement_apology_no_change:
  "\<not> str_in ''change'' (lower ''Sorry, I ran into an issue there. What were you thinking about changing or asking about your build?'')"
  by code_simp

lemma generate_ignores_dialogue:
  "generate_build_from_conversation (env\<lparr>dialogue := d\<rparr>) s =
   generate_build_from_conversation env s"
  by (simp add: generate_build_from_conversation_def generate_build_def)

lemma empty_dialogue_reply:
  "dialogue env = Returns [] \<Longrightarrow>
   handle_conversation_mode env c s =
   handle_conversation_mode
     (env\<lparr>dialogue := Returns ''I'm here to help! What would you like to know about building a PC?''\<rparr>) c s"
  by (simp add: handle_conversation_mode_def Let_def generate_ignores_dialogue)

lemma empty_refinement_reply:
  "refinement env = Returns [] \<Longrightarrow>
   handle_refinement_conversation env c s =
   handle_refinement_conversation
     (env\<lparr>refinement := Returns ''I'm here to help! What would you like to know about your build or what changes are you thinking about?''\<rparr>) c s"
proof -
  assume a: "refinement env = Returns []"
  let ?env = "env\<lparr>refinement := Returns ''I'm here to help! What would you like to know about your build or what changes are you thinking about?''\<rparr>"
  have m: "handle_refinement_message ?env s' c b = handle_refinement_message env s' c b" for s' b
    using a by (simp add: handle_refinement_message_def)
  have g: "generate_build ?env s' = generate_build env s'" for s'
    by (simp add: generate_build_def)
  have l: "later_iso ?env = later_iso env" by simp
  show ?thesis
    by (simp only: handle_refinement_conversation_def m g l)
qed

text \<open>
  Claim C2, amended. When the dialogue call of a collecting turn, or the reply call of a
  refining turn, raises (an error of the service or its timeout), the exception is
  caught where the call is made, the user gets a short apology, and the three phase
  flags are as before, so the same turn can be tried again. When the call that generates
  the build raises or returns nothing, \<^verbatim>\<open>generate_build\<close> turns the failure into an
  error text; \<^verbatim>\<open>generate_build_from_conversation\<close> stores that text as the build
  result, sends it to the user, and moves the session from conversation mode to
  refinement mode. An empty reply to the dialogue call or to the refinement call is
  replaced by a stock prompt, and the turn goes on as it does for any other reply.
\<close>

theorem generation_failure_handling:
  "(dialogue env = Raises e \<longrightarrow>
      handle_conversation_mode env c s =
        (s\<lparr>chat_history := chat_history s @ [user_msg c]\<rparr>,
         [Plain ''Sorry, I ran into an issue there. What would you like to know about building a PC?'']) \<and>
      phase (fst (handle_conversation_mode env c s)) = phase s) \<and>
   (refinement env = Raises e \<and> parts_data env \<noteq> [] \<longrightarrow>
      snd (handle_refinement_conversation env c s) =
        [BuildAssistant ''Sorry, I ran into an issue there. What were you thinking about changing or asking about your build?''] \<and>
      phase (fst (handle_refinement_conversation env c s)) = phase s \<and>
      build_result (fst (handle_refinement_conversation env c s)) = build_result s) \<and>
   (parts_data env \<noteq> [] \<and> (build env = Raises e \<or> build env = Returns []) \<longrightarrow>
      startswith (generate_build env s) cross_mark \<and>
      generate_build_from_conversation env s =
        (s\<lparr>build_result := generate_build env s, refinement_mode := True,
           conversation_mode := False\<rparr>,
         [Thinking, Plain (generate_build env s)])) \<and>
   (dialogue env = Returns [] \<longrightarrow>
      handle_conversation_mode env c s =
      handle_conversation_mode
        (env\<lparr>dialogue := Returns ''I'm here to help! What would you like to know about building a PC?''\<rparr>) c s) \<and>
   (refinement env = Returns [] \<longrightarrow>
      handle_refinement_conversation env c s =
      handle_refinement_conversation
        (env\<lparr>refinement := Returns ''I'm here to help! What would you like to know about your build or what changes are you thinking about?''\<rparr>) c s)"
proof (intro conjI impI)
  assume "dialogue env = Returns []"
  then show "handle_conversation_mode env c s =
      handle_conversation_mode
        (env\<lparr>dialogue := Returns ''I'm here to help! What would you like to know about building a PC?''\<rparr>) c s"
    by (rule empty_dialogue_reply)
next
  assume "refinement env = Returns []"
  then show "handle_refinement_conversation env c s =
      handle_refinement_conversation
        (env\<lparr>refinement := Returns ''I'm here to help! What would you like to know about your build or what changes are you thinking about?''\<rparr>) c s"
    by (rule empty_refinement_reply)
next
  assume "dialogue env = Raises e"
  then show h: "handle_conversation_mode env c s =
        (s\<lparr>chat_history := chat_history s @ [user_msg c]\<rparr>,
         [Plain ''Sorry, I ran into an issue there. What would you like to know about building a PC?''])"
    by (rule conversation_turn_raises)
  show "phase (fst (handle_conversation_mode env c s)) = phase s"
    by (simp add: h phase_def)
next
  assume a: "refinement env = Raises e \<and> parts_data env \<noteq> []"
  let ?s1 = "(if lower c \<notin> set [''done'', ''restart'', ''cancel'']
                then s\<lparr>build_edits := build_edits s @ [c]\<rparr> else s)"
  have r: "handle_refinement_message env ?s1 c (build_result ?s1) =
      ''Sorry, I ran into an issue there. What were you thinking about changing or asking about your build?''"
    using a by (simp add: handle_refinement_message_def)
  have h: "handle_refinement_conversation env c s =
      (update_activity (later_iso env) ?s1,
       [BuildAssistant ''Sorry, I ran into an issue there. What were you thinking about changing or asking about your build?''])"
    unfolding handle_refinement_conversation_def Let_def r
    using refinement_apology_no_change by simp
  show "snd (handle_refinement_conversation env c s) =
        [BuildAssistant ''Sorry, I ran into an issue there. What were you thinking about changing or asking about your build?'']"
    by (simp only: h snd_conv)
  show "phase (fst (handle_refinement_conversation env c s)) = phase s"
    by (simp add: h phase_def update_activity_def)
  show "build_result (fst (handle_refinement_conversation env c s)) = build_result s"
    by (simp add: h update_activity_def)
next
  assume a: "parts_data env \<noteq> [] \<and> (build env = Raises e \<or> build env = Returns [])"
  then show f: "startswith (generate_build env s) cross_mark"
    by (intro generate_build_failure) auto
  then show "generate_build_from_conversation env s =
        (s\<lparr>build_result := generate_build env s, refinement_mode := True,
           conversation_mode := False\<rparr>,
         [Thinking, Plain (generate_build env s)])"
    by (simp add: generate_build_from_conversation_def Let_def send_build_result_def)
qed

theorem generation_failure_handling_witness:
  "dialogue (sample_env\<lparr>dialogue := Raises ''503''\<rparr>) = Raises ''503'' \<and>
   phase (fst (handle_conversation_mode (sample_env\<lparr>dialogue := Raises ''503''\<rparr>) ''hello''
      (sample_session 1))) = phase (sample_session 1) \<and>
   snd (handle_conversation_mode (sample_env\<lparr>dialogue := Raises ''503''\<rparr>) ''hello''
      (sample_session 1)) =
     [Plain ''Sorry, I ran into an issue there. What would you like to know about building a PC?''] \<and>
   phase (fst (handle_refinement_conversation (sample_env\<lparr>refinement := Raises ''503''\<rparr>)
      ''make it cheaper'' (sample_session 1))) = phase (sample_session 1) \<and>
   phase (fst (generate_build_from_conversation (sample_env\<lparr>build := Raises ''503''\<rparr>)
      (sample_session 1))) = (False, True, False)"
proof -
  let ?d = "sample_env\<lparr>dialogue := Raises ''503''\<rparr>"
  let ?r = "sample_env\<lparr>refinement := Raises ''503''\<rparr>"
  let ?b = "sample_env\<lparr>build := Raises ''503''\<rparr>"
  have hd: "dialogue ?d = Raises ''503''" by simp
  have hr: "refinement ?r = Raises ''503'' \<and> parts_data ?r \<noteq> []" by (simp add: sample_env_def)
  have hb: "parts_data ?b \<noteq> [] \<and> (build ?b = Raises ''503'' \<or> build ?b = Returns [])"
    by (simp add: sample_env_def)
  have f: "feedback_mode (sample_session 1) = False"
    by (simp add: sample_session_def new_session_def)
  from generation_failure_handling [of ?d "''503''" "''hello''" "sample_session 1"] hd
  have c0: "handle_conversation_mode ?d ''hello'' (sample_session 1) =
        ((sample_session 1)\<lparr>chat_history := chat_history (sample_session 1) @ [user_msg ''hello'']\<rparr>,
         [Plain ''Sorry, I ran into an issue there. What would you like to know about building a PC?''])"
    and c1: "phase (fst (handle_conversation_mode ?d ''hello'' (sample_session 1))) =
      phase (sample_session 1)"
    by blast+
  have c1': "snd (handle_conversation_mode ?d ''hello'' (sample_session 1)) =
     [Plain ''Sorry, I ran into an issue there. What would you like to know about building a PC?'']"
    by (simp only: c0 snd_conv)
  from generation_failure_handling [of ?r "''503''" "''make it cheaper''" "sample_session 1"] hr
  have c2: "phase (fst (handle_refinement_conversation ?r ''make it cheaper'' (sample_session 1))) =
      phase (sample_session 1)"
    by blast
  from generation_failure_handling [of ?b "''503''" "''x''" "sample_session 1"] hb
  have "generate_build_from_conversation ?b (sample_session 1) =
        ((sample_session 1)\<lparr>build_result := generate_build ?b (sample_session 1),
           refinement_mode := True, conversation_mode := False\<rparr>,
         [Thinking, Plain (generate_build ?b (sample_session 1))])"
    by blast
  then have c3: "phase (fst (generate_build_from_conversation ?b (sample_session 1))) =
      (False, True, False)"
    by (simp add: phase_def f)
  show ?thesis using hd c1 c1' c2 c3 by blast
qed

end
